theory Spec2Isabelle
  imports Complex_Main "HOL-Library.Sublist"
begin

section \<open>Python values used by \<open>autogen_pulse.pulse_filter\<close>\<close>

text \<open>
  A Python \<open>float\<close> is an IEEE-754 binary64 number. A finite one is represented by the
  rational it denotes (the sign of zero is not kept); the three special values are
  constructors of their own.
\<close>

datatype pyfloat = Finite rat | PInf | NInf | NaN

text \<open>
  The dynamically typed values the module inspects: decoded JSON, thresholds, attribute
  values. A \<open>dict\<close> is an association list read with \<open>map_of\<close>. A \<open>str\<close> is a list
  of \<open>char\<close>, each standing for one code point below 256.
\<close>

datatype pyval =
    PNone
  | PBool bool
  | PInt int
  | PFloat pyfloat
  | PStr string
  | PList "pyval list"
  | PDict "(string \<times> pyval) list"

text \<open>
  Exceptions as values. \<open>ValueError\<close> is the invalid-argument condition and carries its
  message; \<open>AgentPulseError\<close> is the module's request error and carries its message.
\<close>

datatype py_error =
    ValueError string
  | TypeError
  | AttributeError
  | OverflowError
  | AgentPulseError string
  | OtherError string

subsection \<open>Strings: \<open>str.strip\<close>, \<open>str.lower\<close>, \<open>str(int)\<close>\<close>

definition is_space :: "char \<Rightarrow> bool" where
  "is_space c = (c \<in> set [CHR 0x09, CHR 0x0A, CHR 0x0B, CHR 0x0C, CHR 0x0D,
                           CHR 0x1C, CHR 0x1D, CHR 0x1E, CHR 0x1F, CHR 0x20,
                           CHR 0x85, CHR 0xA0])"

definition is_digit :: "char \<Rightarrow> bool" where
  "is_digit c = (c \<in> set ''0123456789'')"

definition py_strip :: "string \<Rightarrow> string" where
  "py_strip s = rev (dropWhile is_space (rev (dropWhile is_space s)))"

definition lower_char :: "char \<Rightarrow> char" where
  "lower_char c =
     (let n = (of_char c :: nat)
      in if (65 \<le> n \<and> n \<le> 90) \<or> (192 \<le> n \<and> n \<le> 222 \<and> n \<noteq> 215)
         then char_of (n + 32) else c)"

definition py_lower :: "string \<Rightarrow> string" where
  "py_lower s = map lower_char s"

fun str_nat :: "nat \<Rightarrow> string" where
  "str_nat n =
     (if n < 10 then [char_of (48 + n)]
      else str_nat (n div 10) @ [char_of (48 + n mod 10)])"

declare str_nat.simps [simp del]

definition str_int :: "int \<Rightarrow> string" where
  "str_int i = (if i < 0 then CHR ''-'' # str_nat (nat (- i)) else str_nat (nat i))"

definition digit_val :: "char \<Rightarrow> int" where
  "digit_val c = of_char c - 48"

text \<open>The number a string of decimal digits denotes.\<close>

definition int_of_digits :: "string \<Rightarrow> int" where
  "int_of_digits ds = foldl (\<lambda>acc c. 10 * acc + digit_val c) 0 ds"

subsection \<open>Floats: rounding to binary64 and the operations the module uses\<close>

text \<open>\<open>int.bit_length\<close>: the number of binary digits of a positive integer.\<close>

function bit_length :: "int \<Rightarrow> nat" where
  "bit_length n = (if n \<le> 0 then 0 else Suc (bit_length (n div 2)))"
  by pat_completeness auto
termination
  by (relation "measure nat") auto

declare bit_length.simps [simp del]

text \<open>\<open>floor_log2 q\<close> is the integer \<open>e\<close> with \<open>2^e \<le> q < 2^(e+1)\<close>, for \<open>q > 0\<close>.\<close>

definition floor_log2 :: "rat \<Rightarrow> int" where
  "floor_log2 q =
     (if 1 \<le> q then int (bit_length \<lfloor>q\<rfloor>) - 1
      else - int (bit_length (\<lceil>1 / q\<rceil> - 1)))"

definition round_half_even :: "rat \<Rightarrow> int" where
  "round_half_even x =
     (let f = \<lfloor>x\<rfloor>; d = x - of_int f
      in if d < 1 / 2 then f else if 1 / 2 < d then f + 1
         else if even f then f else f + 1)"

text \<open>
  Round-to-nearest, ties-to-even, onto binary64: 53 significant bits, least exponent
  \<open>-1022\<close> (below it the spacing stays \<open>2^-1074\<close>), overflow to infinity from
  \<open>2^1024\<close> on. This is the rounding of \<open>float(str)\<close>, \<open>float(int)\<close>, \<open>*\<close> and \<open>/\<close>.
\<close>

definition binary64 :: "rat \<Rightarrow> pyfloat" where
  "binary64 q =
     (if q = 0 then Finite 0
      else
        let a = \<bar>q\<bar>;
            e = max (floor_log2 a) (- 1022);
            u = (if 52 \<le> e then 2 ^ nat (e - 52) else 1 / 2 ^ nat (52 - e));
            m = of_int (round_half_even (a / u)) * u
        in if 2 ^ 1024 \<le> m then (if q < 0 then NInf else PInf)
           else Finite (if q < 0 then - m else m))"

text \<open>\<open>x <= 0\<close> on a float: false for \<open>nan\<close>.\<close>

definition float_le_zero :: "pyfloat \<Rightarrow> bool" where
  "float_le_zero x = (case x of Finite q \<Rightarrow> q \<le> 0 | NInf \<Rightarrow> True | PInf \<Rightarrow> False | NaN \<Rightarrow> False)"

text \<open>\<open>float(n)\<close> of an \<open>int\<close>: raises \<open>OverflowError\<close> when the int is too large.\<close>

definition float_of_int :: "int \<Rightarrow> py_error + pyfloat" where
  "float_of_int n =
     (case binary64 (of_int n) of Finite q \<Rightarrow> Inr (Finite q) | _ \<Rightarrow> Inl OverflowError)"

text \<open>\<open>x * c\<close> and \<open>x / c\<close> for a finite constant \<open>c > 0\<close> (3600.0, 60.0, 24.0).\<close>

definition float_mul_const :: "pyfloat \<Rightarrow> rat \<Rightarrow> pyfloat" where
  "float_mul_const x c = (case x of Finite q \<Rightarrow> binary64 (q * c) | _ \<Rightarrow> x)"

definition float_div_const :: "pyfloat \<Rightarrow> rat \<Rightarrow> pyfloat" where
  "float_div_const x c = (case x of Finite q \<Rightarrow> binary64 (q / c) | _ \<Rightarrow> x)"

text \<open>\<open>int(x)\<close> of a float truncates toward zero; it raises on infinities and \<open>nan\<close>.\<close>

definition int_of_float :: "pyfloat \<Rightarrow> py_error + int" where
  "int_of_float x =
     (case x of
        Finite q \<Rightarrow> Inr (if 0 \<le> q then \<lfloor>q\<rfloor> else \<lceil>q\<rceil>)
      | NaN \<Rightarrow> Inl (ValueError ''cannot convert float NaN to integer'')
      | _ \<Rightarrow> Inl OverflowError)"

text \<open>
  \<open>float(s)\<close> for a string of the form \<open>digits\<close> or \<open>digits.digits\<close>, the only strings
  \<open>parse_threshold\<close> passes to it: the decimal value, correctly rounded.
\<close>

definition float_of_decimal :: "string \<Rightarrow> pyfloat" where
  "float_of_decimal s =
     (let ip = takeWhile (\<lambda>c. c \<noteq> CHR ''.'') s;
          fp = drop 1 (dropWhile (\<lambda>c. c \<noteq> CHR ''.'') s)
      in binary64 (of_int (int_of_digits ip) + of_int (int_of_digits fp) / 10 ^ length fp))"

section \<open>\<open>parse_threshold\<close>\<close>

text \<open>
  The regular expression \<^verbatim>\<open>^(?P<value>\d+(?:\.\d+)?)\s*(?P<unit>[smhd])$\<close> of
  \<open>parse_threshold\<close>, matched from the start of the string. It is deterministic: the
  digits are taken greedily, the fraction is taken when a dot is followed by a digit,
  whitespace is skipped, and exactly one unit letter must remain. The result is the pair
  of the groups \<open>value\<close> and \<open>unit\<close>. The string it is applied to has been stripped, so
  \<^verbatim>\<open>$\<close> is the end of the string.
\<close>

definition match_threshold :: "string \<Rightarrow> (string \<times> char) option" where
  "match_threshold s =
     (let ip = takeWhile is_digit s;
          r1 = dropWhile is_digit s
      in if ip = [] then None
         else
           let fp = (case r1 of
                       [] \<Rightarrow> []
                     | c # t \<Rightarrow> if c = CHR ''.'' \<and> takeWhile is_digit t \<noteq> []
                                then c # takeWhile is_digit t else []);
               r2 = drop (length fp) r1;
               r3 = dropWhile is_space r2
           in (case r3 of
                 [u] \<Rightarrow> if u \<in> set ''smhd'' then Some (ip @ fp, u) else None
               | _ \<Rightarrow> None))"

text \<open>\<open>repr(type(v))\<close>, for the message of the unsupported-type error.\<close>

definition type_repr :: "pyval \<Rightarrow> string" where
  "type_repr v =
     (case v of
        PNone \<Rightarrow> ''<class 'NoneType'>''
      | PBool _ \<Rightarrow> ''<class 'bool'>''
      | PInt _ \<Rightarrow> ''<class 'int'>''
      | PFloat _ \<Rightarrow> ''<class 'float'>''
      | PStr _ \<Rightarrow> ''<class 'str'>''
      | PList _ \<Rightarrow> ''<class 'list'>''
      | PDict _ \<Rightarrow> ''<class 'dict'>'')"

text \<open>
  \<open>isinstance(threshold, (int, float))\<close> holds for \<open>bool\<close>, \<open>int\<close> and \<open>float\<close>: a
  \<open>bool\<close> is the int 0 or 1.
\<close>

definition parse_threshold :: "pyval \<Rightarrow> py_error + pyfloat" where
  "parse_threshold threshold =
     (case threshold of
        PBool b \<Rightarrow>
          if (if b then 1 else 0 :: int) \<le> 0 then Inl (ValueError ''threshold must be > 0'')
          else float_of_int (if b then 1 else 0)
      | PInt n \<Rightarrow>
          if n \<le> 0 then Inl (ValueError ''threshold must be > 0'')
          else float_of_int n
      | PFloat x \<Rightarrow>
          if float_le_zero x then Inl (ValueError ''threshold must be > 0'')
          else Inr x
      | PStr t \<Rightarrow>
          (let s = py_lower (py_strip t)
           in case match_threshold s of
                None \<Rightarrow> Inl (ValueError
                  (''threshold must look like '' @ [CHR 0x22] @ ''24h'' @ [CHR 0x22] @ '', ''
                   @ [CHR 0x22] @ ''15m'' @ [CHR 0x22] @ '', '' @ [CHR 0x22] @ ''2d'' @ [CHR 0x22]
                   @ '', or a numeric hour value''))
              | Some (value, unit) \<Rightarrow>
                  (let v = float_of_decimal value
                   in if float_le_zero v then Inl (ValueError ''threshold must be > 0'')
                      else if unit = CHR ''s'' then Inr (float_div_const v 3600)
                      else if unit = CHR ''m'' then Inr (float_div_const v 60)
                      else if unit = CHR ''h'' then Inr v
                      else if unit = CHR ''d'' then Inr (float_mul_const v 24)
                      else Inl (ValueError (''Unsupported unit: '' @ [unit]))))
      | _ \<Rightarrow> Inl (ValueError (''Unsupported threshold type: '' @ type_repr threshold)))"

text \<open>
  The two patterns as languages, for comparison with \<open>match_threshold\<close>: the pattern of
  the code, and the pattern \<^verbatim>\<open>^\d+(\.\d+)?[smhd]$\<close> of the specification, which has no
  whitespace between the number and the unit. A string belongs to a language when one of
  its splits fits: \<^verbatim>\<open>\d+(\.\d+)?\<close> is digits followed by nothing or by a dot and
  digits; the whole pattern is such a number, whitespace (for the pattern of the code),
  and one unit letter.
\<close>

definition is_number_text :: "string \<Rightarrow> bool" where
  "is_number_text v =
     list_ex
       (\<lambda>i. let ip = take i v; fp = drop i v
            in ip \<noteq> [] \<and> list_all is_digit ip
               \<and> (fp = [] \<or> (hd fp = CHR ''.'' \<and> tl fp \<noteq> [] \<and> list_all is_digit (tl fp))))
       [0..<Suc (length v)]"

definition matches_code_pattern :: "string \<Rightarrow> bool" where
  "matches_code_pattern s =
     (s \<noteq> [] \<and> last s \<in> set ''smhd''
      \<and> list_ex
            (\<lambda>i. is_number_text (take i (butlast s)) \<and> list_all is_space (drop i (butlast s)))
            [0..<Suc (length (butlast s))])"

definition matches_spec_pattern :: "string \<Rightarrow> bool" where
  "matches_spec_pattern s =
     (s \<noteq> [] \<and> last s \<in> set ''smhd'' \<and> is_number_text (butlast s))"

section \<open>\<open>_normalize_address\<close>\<close>

definition normalize_address :: "string \<Rightarrow> py_error + string" where
  "normalize_address addr0 =
     (let addr = py_strip addr0
      in if addr = [] then Inl (ValueError ''Empty address'')
         else if prefix ''0x'' addr \<or> prefix ''0X'' addr
              then Inr (''0x'' @ py_lower (drop 2 addr))
         else Inr (py_lower addr))"

section \<open>\<open>_get_agent_address\<close>\<close>

text \<open>
  An agent is a string, a dict, or any other object, given by its attributes.
\<close>

datatype agent =
    AgentStr string
  | AgentDict "(string \<times> pyval) list"
  | AgentObject "(string \<times> pyval) list"

definition address_keys :: "string list" where
  "address_keys =
     [''address'', ''wallet_address'', ''walletAddress'', ''agent_address'', ''agentAddress'']"

text \<open>
  The loop over the keys (of a dict) or attribute names (of an object): the first one
  bound to a \<open>str\<close> that is not empty once stripped.
\<close>

fun probe :: "(string \<times> pyval) list \<Rightarrow> string list \<Rightarrow> string option" where
  "probe kv [] = None"
| "probe kv (key # keys) =
     (case map_of kv key of
        Some (PStr v) \<Rightarrow> if py_strip v \<noteq> [] then Some v else probe kv keys
      | _ \<Rightarrow> probe kv keys)"

definition extract_error :: py_error where
  "extract_error = ValueError
     (''Could not extract an address from agent. Provide a string address, a dict with an ''
      @ [CHR 0x27] @ ''address'' @ [CHR 0x27]
      @ '' key, or an object with .address/.wallet_address.'')"

text \<open>A dict has none of the five attributes, so for it the second loop finds nothing.\<close>

definition get_agent_address :: "agent \<Rightarrow> py_error + string" where
  "get_agent_address agent =
     (case agent of
        AgentStr s \<Rightarrow> normalize_address s
      | AgentDict kv \<Rightarrow>
          (case probe kv address_keys of
             Some v \<Rightarrow> normalize_address v
           | None \<Rightarrow> Inl extract_error)
      | AgentObject attrs \<Rightarrow>
          (case probe attrs address_keys of
             Some v \<Rightarrow> normalize_address v
           | None \<Rightarrow> Inl extract_error))"

section \<open>\<open>_http_get_json\<close>\<close>

text \<open>
  What one pass through the \<open>try\<close> block does: it returns the decoded body, or raises
  \<open>HTTPError\<close> (with its \<open>code\<close>, its text \<open>str(e)\<close>, and the body that \<open>e.read()\<close>
  gives, \<open>None\<close> when reading it raises), \<open>URLError\<close> or \<open>TimeoutError\<close> (with
  \<open>str(e)\<close>), or any other exception (a body that is not JSON, say), which no handler
  catches.
\<close>

datatype http_outcome =
    Returned pyval
  | RaisedHTTPError "int option" string "string option"
  | RaisedURLError string
  | RaisedTimeoutError string
  | RaisedOther py_error

text \<open>
  The effects of a fetch are recorded in a trace: each request sent and each call of
  \<open>time.sleep\<close>, in order. The remote service is a function of the history and the URL.
  Headers and the per-request timeout only travel to the service and are left out.
\<close>

datatype event = Request string | Sleep rat

type_synonym trace = "event list"

type_synonym server = "trace \<Rightarrow> string \<Rightarrow> http_outcome"

definition retryable :: "int option \<Rightarrow> bool" where
  "retryable status =
     (status = Some 408 \<or> status = Some 429
      \<or> (case status of None \<Rightarrow> False | Some c \<Rightarrow> 500 \<le> c \<and> c \<le> 599))"

definition http_error_message :: "int option \<Rightarrow> string \<Rightarrow> string \<Rightarrow> string" where
  "http_error_message status url body =
     ''Agent Pulse API HTTP '' @ (case status of None \<Rightarrow> ''None'' | Some c \<Rightarrow> str_int c)
     @ '' for '' @ url @ ''. Body: '' @ take 200 body"

definition request_failed_message :: "string \<Rightarrow> string \<Rightarrow> string" where
  "request_failed_message url e = ''Agent Pulse API request failed for '' @ url @ '': '' @ e"

text \<open>
  The handlers of the \<open>try\<close> block, for attempt number \<open>attempt\<close>: the call is over
  (with a value or an exception), or the loop goes on to the backoff.
\<close>

datatype attempt_result = Done "py_error + pyval" | Retry string

definition handle_outcome :: "string \<Rightarrow> int \<Rightarrow> nat \<Rightarrow> http_outcome \<Rightarrow> attempt_result" where
  "handle_outcome url max_retries attempt outcome =
     (case outcome of
        Returned payload \<Rightarrow> Done (Inr payload)
      | RaisedHTTPError status e body \<Rightarrow>
          if max_retries \<le> int attempt \<or> \<not> retryable status
          then Done (Inl (AgentPulseError
                 (http_error_message status url (case body of None \<Rightarrow> [] | Some b \<Rightarrow> b))))
          else Retry e
      | RaisedURLError e \<Rightarrow>
          if max_retries \<le> int attempt
          then Done (Inl (AgentPulseError (request_failed_message url e)))
          else Retry e
      | RaisedTimeoutError e \<Rightarrow>
          if max_retries \<le> int attempt
          then Done (Inl (AgentPulseError (request_failed_message url e)))
          else Retry e
      | RaisedOther err \<Rightarrow> Done (Inl err))"

text \<open>
  The \<open>for attempt in range(max_retries + 1)\<close> loop, by recursion on the attempts still to
  make. The delay \<open>backoff_secs * (2**attempt)\<close> is written as an exact rational (the
  product of a float with a power of two is exact short of overflow); \<open>time.sleep\<close>
  raises \<open>ValueError\<close> on a negative delay. After the loop comes the final \<open>raise\<close>.
\<close>

fun http_attempts ::
  "server \<Rightarrow> string \<Rightarrow> int \<Rightarrow> rat \<Rightarrow> nat list \<Rightarrow> string option \<Rightarrow> trace
     \<Rightarrow> (py_error + pyval) \<times> trace" where
  "http_attempts srv url max_retries backoff_secs [] last_err tr =
     (Inl (AgentPulseError
        (request_failed_message url (case last_err of None \<Rightarrow> ''None'' | Some e \<Rightarrow> e))), tr)"
| "http_attempts srv url max_retries backoff_secs (attempt # rest) last_err tr =
     (case handle_outcome url max_retries attempt (srv tr url) of
        Done r \<Rightarrow> (r, tr @ [Request url])
      | Retry e \<Rightarrow>
          (let sleep_for = backoff_secs * 2 ^ attempt
           in if sleep_for < 0
              then (Inl (ValueError ''sleep length must be non-negative''), tr @ [Request url])
              else http_attempts srv url max_retries backoff_secs rest (Some e)
                     (tr @ [Request url, Sleep sleep_for])))"

definition http_get_json ::
  "server \<Rightarrow> string \<Rightarrow> int \<Rightarrow> rat \<Rightarrow> trace \<Rightarrow> (py_error + pyval) \<times> trace" where
  "http_get_json srv url max_retries backoff_secs tr =
     http_attempts srv url max_retries backoff_secs [0..<nat (max_retries + 1)] None tr"




section \<open>\<open>AgentPulseStatus\<close> and \<open>_is_recent\<close>\<close>

record AgentPulseStatus =
  address :: string
  alive :: "bool option"
  last_pulse_timestamp :: "int option"
  streak_count :: "int option"
  raw :: pyval

definition is_recent :: "AgentPulseStatus \<Rightarrow> int \<Rightarrow> int \<Rightarrow> bool" where
  "is_recent status now_ts threshold_seconds =
     (case last_pulse_timestamp status of
        None \<Rightarrow> (case alive status of None \<Rightarrow> False | Some b \<Rightarrow> b)
      | Some ts \<Rightarrow> (let staleness = max 0 (now_ts - ts) in staleness \<le> threshold_seconds))"

section \<open>\<open>get_agent_status\<close>\<close>

subsection \<open>The builtins \<open>int(v)\<close> and \<open>bool(v)\<close>\<close>

text \<open>
  \<open>int(s)\<close> of a string: surrounding whitespace is dropped, one sign is allowed, and the
  rest must be decimal digits, where single underscores may stand between digits.
\<close>

definition int_of_str :: "string \<Rightarrow> int option" where
  "int_of_str s0 =
     (let s = py_strip s0;
          signed = (s \<noteq> [] \<and> (hd s = CHR ''-'' \<or> hd s = CHR ''+''));
          body = (if signed then tl s else s);
          ok = (body \<noteq> [] \<and> is_digit (hd body) \<and> is_digit (last body)
                \<and> list_all (\<lambda>c. is_digit c \<or> c = CHR ''_'') body
                \<and> list_all (\<lambda>(a, b). \<not> (a = CHR ''_'' \<and> b = CHR ''_'')) (zip body (tl body)));
          n = int_of_digits (filter is_digit body)
      in if ok then Some (if signed \<and> hd s = CHR ''-'' then - n else n) else None)"

definition py_int :: "pyval \<Rightarrow> py_error + int" where
  "py_int v =
     (case v of
        PNone \<Rightarrow> Inl TypeError
      | PBool b \<Rightarrow> Inr (if b then 1 else 0)
      | PInt n \<Rightarrow> Inr n
      | PFloat x \<Rightarrow> int_of_float x
      | PStr s \<Rightarrow>
          (case int_of_str s of
             Some n \<Rightarrow> Inr n
           | None \<Rightarrow> Inl (ValueError ''invalid literal for int() with base 10''))
      | PList _ \<Rightarrow> Inl TypeError
      | PDict _ \<Rightarrow> Inl TypeError)"

definition py_bool :: "pyval \<Rightarrow> bool" where
  "py_bool v =
     (case v of
        PNone \<Rightarrow> False
      | PBool b \<Rightarrow> b
      | PInt n \<Rightarrow> n \<noteq> 0
      | PFloat x \<Rightarrow> (case x of Finite q \<Rightarrow> q \<noteq> 0 | _ \<Rightarrow> True)
      | PStr s \<Rightarrow> s \<noteq> []
      | PList xs \<Rightarrow> xs \<noteq> []
      | PDict kv \<Rightarrow> kv \<noteq> [])"

subsection \<open>Normalising the payload\<close>

text \<open>\<open>d.get(key)\<close> on a dict: \<open>None\<close> when the key is missing.\<close>

definition dict_get :: "(string \<times> pyval) list \<Rightarrow> string \<Rightarrow> pyval" where
  "dict_get kv key = (case map_of kv key of None \<Rightarrow> PNone | Some v \<Rightarrow> v)"

definition normalize_timestamp :: "pyval \<Rightarrow> int option" where
  "normalize_timestamp last_pulse =
     (if last_pulse = PNone then None
      else case py_int last_pulse of
             Inr lp \<Rightarrow> Some (if 10000000000 < lp then lp div 1000 else lp)
           | Inl _ \<Rightarrow> None)"

text \<open>
  The part of \<open>get_agent_status\<close> after the fetch. On a payload that is not a dict the
  first \<open>payload.get\<close> raises \<open>AttributeError\<close>.
\<close>

definition status_of_payload :: "string \<Rightarrow> pyval \<Rightarrow> py_error + AgentPulseStatus" where
  "status_of_payload norm_addr payload =
     (case payload of
        PDict kv \<Rightarrow>
          (let alive0 = dict_get kv ''alive'';
               alive1 = (if alive0 = PNone then dict_get kv ''isAlive'' else alive0);
               last_pulse0 = dict_get kv ''lastPulse'';
               last_pulse = (if last_pulse0 = PNone then dict_get kv ''lastPulseTimestamp''
                             else last_pulse0);
               streak0 = dict_get kv ''streakCount'';
               streak = (if streak0 = PNone then dict_get kv ''streak'' else streak0);
               last_pulse_ts = normalize_timestamp last_pulse;
               streak_cnt = (if streak \<noteq> PNone
                             then (case py_int streak of Inr n \<Rightarrow> Some n | Inl _ \<Rightarrow> None)
                             else None)
           in Inr \<lparr>address = norm_addr,
                   alive = (if alive1 \<noteq> PNone then Some (py_bool alive1) else None),
                   last_pulse_timestamp = last_pulse_ts,
                   streak_count = streak_cnt,
                   raw = payload\<rparr>)
      | _ \<Rightarrow> Inl AttributeError)"

definition rstrip_slash :: "string \<Rightarrow> string" where
  "rstrip_slash s = rev (dropWhile (\<lambda>c. c = CHR ''/'') (rev s))"

definition status_url :: "string \<Rightarrow> string \<Rightarrow> string" where
  "status_url api_base_url norm_addr = rstrip_slash api_base_url @ ''/api/v2/agent/'' @ norm_addr @ ''/alive''"

definition get_agent_status ::
  "server \<Rightarrow> string \<Rightarrow> string \<Rightarrow> int \<Rightarrow> rat \<Rightarrow> trace
     \<Rightarrow> (py_error + AgentPulseStatus) \<times> trace" where
  "get_agent_status srv addr api_base_url max_retries backoff_secs tr =
     (case normalize_address addr of
        Inl e \<Rightarrow> (Inl e, tr)
      | Inr norm_addr \<Rightarrow>
          (case http_get_json srv (status_url api_base_url norm_addr) max_retries backoff_secs tr of
             (Inl e, tr') \<Rightarrow> (Inl e, tr')
           | (Inr payload, tr') \<Rightarrow> (status_of_payload norm_addr payload, tr')))"

section \<open>\<open>filter_alive_agents\<close> and \<open>filter_alive\<close>\<close>

text \<open>A threshold in hours is an \<open>int\<close> or a \<open>float\<close>.\<close>

datatype number = IntNum int | FloatNum pyfloat

definition number_le_zero :: "number \<Rightarrow> bool" where
  "number_le_zero x = (case x of IntNum n \<Rightarrow> n \<le> 0 | FloatNum f \<Rightarrow> float_le_zero f)"

text \<open>\<open>int(float(threshold_hours) * 3600)\<close>; each conversion can raise.\<close>

definition threshold_seconds_of :: "number \<Rightarrow> py_error + int" where
  "threshold_seconds_of threshold_hours =
     (case (case threshold_hours of IntNum n \<Rightarrow> float_of_int n | FloatNum f \<Rightarrow> Inr f) of
        Inl e \<Rightarrow> Inl e
      | Inr f \<Rightarrow> int_of_float (float_mul_const f 3600))"

text \<open>
  The body of the \<open>try\<close> block for one agent: the address, the status, the recency
  decision. An exception leaves as \<open>Inl\<close>.
\<close>

definition check_agent ::
  "server \<Rightarrow> int \<Rightarrow> int \<Rightarrow> string \<Rightarrow> int \<Rightarrow> rat \<Rightarrow> (agent \<Rightarrow> py_error + string) option
     \<Rightarrow> agent \<Rightarrow> trace \<Rightarrow> (py_error + bool) \<times> trace" where
  "check_agent srv now_ts threshold_seconds api_base_url max_retries backoff_secs address_getter
       agent tr =
     (case (case address_getter of Some g \<Rightarrow> g agent | None \<Rightarrow> get_agent_address agent) of
        Inl e \<Rightarrow> (Inl e, tr)
      | Inr addr \<Rightarrow>
          (case get_agent_status srv addr api_base_url max_retries backoff_secs tr of
             (Inl e, tr') \<Rightarrow> (Inl e, tr')
           | (Inr status, tr') \<Rightarrow> (Inr (is_recent status now_ts threshold_seconds), tr')))"

text \<open>
  The \<open>for agent in agents\<close> loop; \<open>alive_agents\<close> is the list built so far. The check
  of one agent is a parameter, so that the loop reads as in the source.
\<close>

fun filter_loop ::
  "(agent \<Rightarrow> trace \<Rightarrow> (py_error + bool) \<times> trace) \<Rightarrow> bool \<Rightarrow> agent list \<Rightarrow> agent list \<Rightarrow> trace
     \<Rightarrow> (py_error + agent list) \<times> trace" where
  "filter_loop check drop_on_error [] alive_agents tr = (Inr alive_agents, tr)"
| "filter_loop check drop_on_error (agent # agents) alive_agents tr =
     (case check agent tr of
        (Inr recent, tr') \<Rightarrow>
          filter_loop check drop_on_error agents
            (if recent then alive_agents @ [agent] else alive_agents) tr'
      | (Inl e, tr') \<Rightarrow>
          if drop_on_error then filter_loop check drop_on_error agents alive_agents tr'
          else (Inl e, tr'))"

definition filter_alive_agents ::
  "server \<Rightarrow> int \<Rightarrow> agent list \<Rightarrow> number \<Rightarrow> string \<Rightarrow> int \<Rightarrow> rat
     \<Rightarrow> (agent \<Rightarrow> py_error + string) option \<Rightarrow> bool \<Rightarrow> trace
     \<Rightarrow> (py_error + agent list) \<times> trace" where
  "filter_alive_agents srv now_ts agents threshold_hours api_base_url max_retries backoff_secs
       address_getter drop_on_error tr =
     (if number_le_zero threshold_hours
      then (Inl (ValueError ''threshold_hours must be > 0''), tr)
      else case threshold_seconds_of threshold_hours of
             Inl e \<Rightarrow> (Inl e, tr)
           | Inr threshold_seconds \<Rightarrow>
               filter_loop
                 (check_agent srv now_ts threshold_seconds api_base_url max_retries backoff_secs
                    address_getter)
                 drop_on_error agents [] tr)"

text \<open>The defaults of the keyword arguments, and the call that leaves all of them out.\<close>

definition DEFAULT_API_BASE_URL :: string where
  "DEFAULT_API_BASE_URL = ''https://agent-pulse-nine.vercel.app''"

definition DEFAULT_MAX_RETRIES :: int where
  "DEFAULT_MAX_RETRIES = 3"

definition DEFAULT_BACKOFF_SECS :: rat where
  "DEFAULT_BACKOFF_SECS = 1 / 2"

definition filter_alive_agents_defaults ::
  "server \<Rightarrow> int \<Rightarrow> agent list \<Rightarrow> trace \<Rightarrow> (py_error + agent list) \<times> trace" where
  "filter_alive_agents_defaults srv now_ts agents tr =
     filter_alive_agents srv now_ts agents (IntNum 24) DEFAULT_API_BASE_URL DEFAULT_MAX_RETRIES
       DEFAULT_BACKOFF_SECS None True tr"

definition filter_alive ::
  "server \<Rightarrow> int \<Rightarrow> agent list \<Rightarrow> pyval \<Rightarrow> string \<Rightarrow> int \<Rightarrow> rat
     \<Rightarrow> (agent \<Rightarrow> py_error + string) option \<Rightarrow> bool \<Rightarrow> trace
     \<Rightarrow> (py_error + agent list) \<times> trace" where
  "filter_alive srv now_ts agents threshold api_base_url max_retries backoff_secs
       address_getter drop_on_error tr =
     (case parse_threshold threshold of
        Inl e \<Rightarrow> (Inl e, tr)
      | Inr threshold_hours \<Rightarrow>
          filter_alive_agents srv now_ts agents (FloatNum threshold_hours) api_base_url
            max_retries backoff_secs address_getter drop_on_error tr)"


section \<open>Properties\<close>

subsection \<open>Facts on the float model\<close>

text \<open>
  Rules that evaluate the rounding on numerals, the float 0.025, the fact that an integer
  below \<open>2^53\<close> is a float, and the fact that rounding keeps the sign.
\<close>

lemma bit_length_0: "bit_length 0 = 0"
  by (simp add: bit_length.simps)

lemma bit_length_1: "bit_length 1 = 1"
  by (simp add: bit_length.simps)

lemma bit_length_numeral: "bit_length (numeral k) = Suc (bit_length (numeral k div 2))"
  by (subst bit_length.simps) simp

lemmas float_eval =
  binary64_def floor_log2_def round_half_even_def bit_length_0 bit_length_1 bit_length_numeral
  Let_def

lemma floor_rat_numeral: "\<lfloor>numeral a / numeral b :: rat\<rfloor> = numeral a div numeral b"
  by (metis floor_divide_of_int_eq of_int_numeral)

lemma ceiling_rat_numeral: "\<lceil>numeral a / numeral b :: rat\<rceil> = - (- numeral a div numeral b)"
  by (metis ceiling_def floor_divide_of_int_eq minus_divide_left of_int_minus of_int_numeral)

lemma binary64_0025:
  "binary64 (25 / 1000) = Finite (3602879701896397 / 144115188075855872)"
  by (simp add: float_eval floor_rat_numeral ceiling_rat_numeral)

lemma bit_length_bounds:
  "0 < n \<Longrightarrow> 2 ^ (bit_length n - 1) \<le> n \<and> n < 2 ^ bit_length n"
proof (induction n rule: bit_length.induct)
  case (1 n)
  show ?case
  proof (cases "n = 1")
    case True
    then show ?thesis by (simp add: bit_length_1)
  next
    case False
    with "1.prems" have h: "0 < n div 2" by simp
    have bl: "bit_length n = Suc (bit_length (n div 2))"
      using "1.prems" by (subst bit_length.simps) simp
    from "1.IH" h "1.prems" have ih: "2 ^ (bit_length (n div 2) - 1) \<le> n div 2"
      "n div 2 < 2 ^ bit_length (n div 2)" by simp_all
    have pos: "0 < bit_length (n div 2)"
      using h by (subst bit_length.simps) simp
    then have p: "(2::int) ^ bit_length (n div 2) = 2 * 2 ^ (bit_length (n div 2) - 1)"
      by (cases "bit_length (n div 2)") simp_all
    have "2 * 2 ^ (bit_length (n div 2) - 1) \<le> 2 * (n div 2)" using ih(1) by simp
    also have "\<dots> \<le> n" by simp
    finally have lo: "2 ^ (bit_length n - 1) \<le> n" using bl p by simp
    have "n < 2 * (n div 2) + 2" by presburger
    also have "\<dots> \<le> 2 * 2 ^ bit_length (n div 2)" using ih(2) by simp
    finally have hi: "n < 2 ^ bit_length n" using bl by simp
    from lo hi show ?thesis ..
  qed
qed

lemma round_half_even_of_int: "round_half_even (of_int z) = z"
  by (simp add: round_half_even_def)

lemma binary64_small_int:
  assumes "0 < n" and "n < 2 ^ 53"
  shows "binary64 (of_int n) = Finite (of_int n)"
proof -
  define L where "L = bit_length n"
  from bit_length_bounds [OF assms(1)] have lo: "2 ^ (L - 1) \<le> n" and hi: "n < 2 ^ L"
    by (simp_all add: L_def)
  have Lpos: "0 < L" using hi assms(1) by (cases L) simp_all
  have "(2::int) ^ (L - 1) < 2 ^ 53" using lo assms(2) by simp
  then have L53: "L - 1 < 53" by (simp only: power_strict_increasing_iff)
  define k where "k = 53 - L"
  have e: "floor_log2 (of_int n) = int L - 1"
    using assms(1) by (simp add: floor_log2_def L_def)
  have mx: "max (int L - 1) (- 1022) = int L - 1" by simp
  have u: "(if 52 \<le> int L - 1 then 2 ^ nat (int L - 1 - 52) else 1 / 2 ^ nat (52 - (int L - 1)))
           = (1 / 2 ^ k :: rat)"
    using L53 Lpos
    by (auto simp: k_def nat_diff_distrib intro: arg_cong [where f = "\<lambda>x. 1 / 2 ^ x"])
  have q: "rat_of_int n / (1 / 2 ^ k) = of_int (n * 2 ^ k)" by simp
  have small: "\<not> (2::rat) ^ 1024 \<le> of_int n"
  proof -
    have "of_int n < (of_int (2 ^ 53) :: rat)" using assms(2) by (simp only: of_int_less_iff)
    also have "\<dots> < 2 ^ 1024" by simp
    finally show ?thesis by simp
  qed
  have ne: "rat_of_int n \<noteq> 0" and ab: "\<bar>rat_of_int n\<bar> = of_int n" and nn: "\<not> rat_of_int n < 0"
    using assms(1) by simp_all
  show ?thesis
    unfolding binary64_def Let_def ab e mx u q round_half_even_of_int
    using ne nn small by simp
qed

lemma round_half_even_nonneg: "0 \<le> x \<Longrightarrow> 0 \<le> round_half_even x"
  by (auto simp: round_half_even_def Let_def)

lemma binary64_nonneg:
  assumes "0 \<le> q" and "binary64 q = Finite m"
  shows "0 \<le> m"
proof (cases "q = 0")
  case True
  with assms(2) show ?thesis by (simp add: binary64_def)
next
  case False
  define e where "e = max (floor_log2 \<bar>q\<bar>) (- 1022)"
  define u :: rat where "u = (if 52 \<le> e then 2 ^ nat (e - 52) else 1 / 2 ^ nat (52 - e))"
  have u: "0 < u" by (simp add: u_def)
  have "0 \<le> \<bar>q\<bar> / u" using u by simp
  then have r: "0 \<le> round_half_even (\<bar>q\<bar> / u)" by (rule round_half_even_nonneg)
  have "m = of_int (round_half_even (\<bar>q\<bar> / u)) * u"
    using assms False unfolding binary64_def Let_def e_def [symmetric] u_def [symmetric]
    by (auto split: if_splits)
  with r u show ?thesis by simp
qed

subsection \<open>Recency decision\<close>

text \<open>The window \<open>filter_alive_agents\<close> computes from a positive threshold is not negative.\<close>

lemma threshold_seconds_nonneg:
  assumes "\<not> number_le_zero threshold_hours"
    and "threshold_seconds_of threshold_hours = Inr threshold_seconds"
  shows "0 \<le> threshold_seconds"
proof -
  obtain q where q: "0 \<le> q"
    and c: "int_of_float (float_mul_const (Finite q) 3600) = Inr threshold_seconds"
  proof (cases threshold_hours)
    case (IntNum n)
    with assms(1) have n: "0 < n" by (simp add: number_le_zero_def)
    from assms(2) IntNum obtain f where f: "float_of_int n = Inr f"
      and c: "int_of_float (float_mul_const f 3600) = Inr threshold_seconds"
      by (auto simp: threshold_seconds_of_def split: sum.splits)
    from f obtain q where q: "binary64 (of_int n) = Finite q" "f = Finite q"
      by (auto simp: float_of_int_def split: pyfloat.splits)
    have "0 \<le> q" using binary64_nonneg [OF _ q(1)] n by simp
    with c q(2) that show ?thesis by simp
  next
    case (FloatNum f)
    with assms(2) have c: "int_of_float (float_mul_const f 3600) = Inr threshold_seconds"
      by (simp add: threshold_seconds_of_def)
    then obtain q where fq: "f = Finite q"
      by (cases f) (auto simp: float_mul_const_def int_of_float_def)
    with assms(1) FloatNum have "0 \<le> q"
      by (simp add: number_le_zero_def float_le_zero_def)
    with c fq that show ?thesis by simp
  qed
  from c obtain m where m: "binary64 (q * 3600) = Finite m"
    and t: "threshold_seconds = (if 0 \<le> m then \<lfloor>m\<rfloor> else \<lceil>m\<rceil>)"
    by (auto simp: float_mul_const_def int_of_float_def split: pyfloat.splits)
  have "0 \<le> m" using binary64_nonneg [OF _ m] q by simp
  with t show ?thesis by simp
qed

text \<open>
  C1. For every status, clock reading and threshold, \<open>_is_recent\<close> holds exactly when:
  with a timestamp present, \<open>max(0, now - last_pulse_timestamp) \<le> threshold_seconds\<close>;
  with the timestamp absent, the \<open>alive\<close> flag is \<open>True\<close> (\<open>None\<close> counts as not
  alive). A timestamp in the future has staleness zero, so the agent is recent for every
  window \<open>\<ge> 0\<close>, hence for every window that \<open>filter_alive_agents\<close> computes from a
  positive number of hours.
\<close>

theorem is_recent_decision:
  "is_recent status now_ts threshold_seconds =
     (if last_pulse_timestamp status \<noteq> None
      then max 0 (now_ts - the (last_pulse_timestamp status)) \<le> threshold_seconds
      else alive status = Some True)
   \<and> (last_pulse_timestamp status = Some ts \<and> now_ts \<le> ts \<longrightarrow> max 0 (now_ts - ts) = 0)
   \<and> (last_pulse_timestamp status = Some ts \<and> now_ts \<le> ts \<and> 0 \<le> threshold_seconds
        \<longrightarrow> is_recent status now_ts threshold_seconds)
   \<and> (last_pulse_timestamp status = Some ts \<and> now_ts \<le> ts
        \<and> \<not> number_le_zero threshold_hours
        \<and> threshold_seconds_of threshold_hours = Inr threshold_seconds
        \<longrightarrow> is_recent status now_ts threshold_seconds)"
  using threshold_seconds_nonneg [of threshold_hours threshold_seconds]
  by (auto simp: is_recent_def split: option.splits)

theorem is_recent_decision_witness:
  "threshold_seconds_of (IntNum 1) = Inr 3600
   \<and> is_recent \<lparr>address = ''0xab'', alive = None, last_pulse_timestamp = Some 1500,
              streak_count = None, raw = PDict []\<rparr> 1000 3600
   \<and> is_recent \<lparr>address = ''0xab'', alive = None, last_pulse_timestamp = Some 500,
              streak_count = None, raw = PDict []\<rparr> 1000 3600
   \<and> \<not> is_recent \<lparr>address = ''0xab'', alive = Some True, last_pulse_timestamp = Some 0,
              streak_count = None, raw = PDict []\<rparr> 1000 100
   \<and> is_recent \<lparr>address = ''0xab'', alive = Some True, last_pulse_timestamp = None,
              streak_count = None, raw = PDict []\<rparr> 1000 3600
   \<and> \<not> is_recent \<lparr>address = ''0xab'', alive = Some False, last_pulse_timestamp = None,
              streak_count = None, raw = PDict []\<rparr> 1000 3600
   \<and> \<not> is_recent \<lparr>address = ''0xab'', alive = None, last_pulse_timestamp = None,
              streak_count = None, raw = PDict []\<rparr> 1000 3600"
proof -
  have t: "threshold_seconds_of (IntNum 1) = Inr 3600"
    by (simp add: threshold_seconds_of_def float_of_int_def float_mul_const_def
        int_of_float_def float_eval)
  show ?thesis
    using is_recent_decision [of "\<lparr>address = ''0xab'', alive = None,
          last_pulse_timestamp = Some 1500, streak_count = None, raw = PDict []\<rparr>"
          1000 3600 1500 "IntNum 1"] t
    by (simp add: is_recent_def number_le_zero_def)
qed

subsection \<open>Address normalisation\<close>

lemma py_strip_decomp:
  "\<exists>l r. s = l @ py_strip s @ r \<and> list_all is_space l \<and> list_all is_space r"
proof -
  define t where "t = dropWhile is_space s"
  have s: "s = takeWhile is_space s @ t"
    by (simp add: t_def)
  have "rev (rev t) = rev (takeWhile is_space (rev t) @ dropWhile is_space (rev t))"
    by (simp only: takeWhile_dropWhile_id)
  then have "t = rev (dropWhile is_space (rev t)) @ rev (takeWhile is_space (rev t))"
    by (simp only: rev_append rev_rev_ident)
  then have t: "t = py_strip s @ rev (takeWhile is_space (rev t))"
    by (simp only: py_strip_def t_def)
  have "s = takeWhile is_space s @ py_strip s @ rev (takeWhile is_space (rev t))"
    using s t by simp
  moreover have "list_all is_space (takeWhile is_space s)"
    by (simp add: list_all_iff) (meson set_takeWhileD)
  moreover have "list_all is_space (rev (takeWhile is_space (rev t)))"
    by (simp add: list_all_iff) (meson set_takeWhileD)
  ultimately show ?thesis by blast
qed

lemma last_dropWhile: "dropWhile P xs \<noteq> [] \<Longrightarrow> last (dropWhile P xs) = last xs"
  by (induction xs) (auto split: if_splits)

lemma py_strip_ends:
  assumes "py_strip s \<noteq> []"
  shows "\<not> is_space (hd (py_strip s)) \<and> \<not> is_space (last (py_strip s))"
proof -
  define t where "t = dropWhile is_space s"
  define xs where "xs = dropWhile is_space (rev t)"
  have ps: "py_strip s = rev xs" by (simp add: py_strip_def xs_def t_def)
  with assms have xs: "xs \<noteq> []" by simp
  then have t: "t \<noteq> []" by (auto simp: xs_def)
  have "hd (py_strip s) = last xs" using xs ps by (simp add: hd_rev)
  also have "\<dots> = last (rev t)" using xs unfolding xs_def by (rule last_dropWhile)
  also have "\<dots> = hd t" using t by (simp add: last_rev)
  finally have "hd (py_strip s) = hd t" .
  moreover have "\<not> is_space (hd t)" using t unfolding t_def by (rule hd_dropWhile)
  moreover have "last (py_strip s) = hd xs" using xs ps by (simp add: last_rev)
  moreover have "\<not> is_space (hd xs)" using xs unfolding xs_def by (rule hd_dropWhile)
  ultimately show ?thesis by simp
qed

lemma normalize_address_ex1: "normalize_address '' 0xABCdef '' = Inr ''0xabcdef''"
  by (simp add: normalize_address_def py_strip_def is_space_def py_lower_def lower_char_def
      char_of_eq_iff)

lemma normalize_address_ex2: "normalize_address ''ABCDEF'' = Inr ''abcdef''"
  by (simp add: normalize_address_def py_strip_def is_space_def py_lower_def lower_char_def
      char_of_eq_iff)

lemma normalize_address_ex3: "normalize_address '''' = Inl (ValueError ''Empty address'')"
  by (simp add: normalize_address_def py_strip_def)

text \<open>
  C8. \<open>_normalize_address\<close> trims the surrounding whitespace (the trimmed string is
  the input without a leading and a trailing run of whitespace, and neither starts nor
  ends with whitespace). If the trimmed string starts with \<open>0x\<close> or \<open>0X\<close>, the result
  is \<open>0x\<close> followed by the remaining characters in lower case; otherwise it is the
  whole trimmed string in lower case; a string that is empty once trimmed fails with
  \<open>ValueError\<close>. The three examples of the specification are included.
\<close>

theorem normalize_address_spec:
  "(py_strip a = [] \<longrightarrow> normalize_address a = Inl (ValueError ''Empty address''))
   \<and> (py_strip a \<noteq> [] \<and> (prefix ''0x'' (py_strip a) \<or> prefix ''0X'' (py_strip a))
        \<longrightarrow> normalize_address a = Inr (''0x'' @ py_lower (drop 2 (py_strip a))))
   \<and> (py_strip a \<noteq> [] \<and> \<not> prefix ''0x'' (py_strip a) \<and> \<not> prefix ''0X'' (py_strip a)
        \<longrightarrow> normalize_address a = Inr (py_lower (py_strip a)))
   \<and> (\<exists>l r. a = l @ py_strip a @ r \<and> list_all is_space l \<and> list_all is_space r)
   \<and> (py_strip a \<noteq> []
        \<longrightarrow> \<not> is_space (hd (py_strip a)) \<and> \<not> is_space (last (py_strip a)))
   \<and> normalize_address '' 0xABCdef '' = Inr ''0xabcdef''
   \<and> normalize_address ''ABCDEF'' = Inr ''abcdef''
   \<and> normalize_address [] = Inl (ValueError ''Empty address'')"
  using py_strip_decomp [of a] py_strip_ends [of a]
    normalize_address_ex1 normalize_address_ex2 normalize_address_ex3
  by (simp add: normalize_address_def Let_def)

theorem normalize_address_spec_witness:
  "py_strip '' 0xABCdef '' = ''0xABCdef'' \<and> prefix ''0x'' (py_strip '' 0xABCdef '')
   \<and> normalize_address '' 0xABCdef '' = Inr (''0x'' @ py_lower (drop 2 (py_strip '' 0xABCdef '')))
   \<and> \<not> is_space (hd (py_strip '' 0xABCdef ''))"
proof -
  have h: "py_strip '' 0xABCdef '' = ''0xABCdef''"
    by (simp add: py_strip_def is_space_def)
  show ?thesis
    using normalize_address_spec [of "'' 0xABCdef ''"] h by simp
qed

subsection \<open>Threshold parsing\<close>






lemma unit_not_dot: "u \<in> set ''smhd'' \<Longrightarrow> u \<noteq> CHR ''.''"
  by auto



lemma is_number_text_iff:
  "is_number_text v \<longleftrightarrow>
     (\<exists>ip fp. v = ip @ fp \<and> ip \<noteq> [] \<and> list_all is_digit ip
        \<and> (fp = [] \<or> (\<exists>fd. fp = CHR ''.'' # fd \<and> fd \<noteq> [] \<and> list_all is_digit fd)))"
  (is "?L \<longleftrightarrow> ?R")
proof
  assume ?L
  then obtain i where i: "take i v \<noteq> []" "list_all is_digit (take i v)"
      "drop i v = [] \<or> (hd (drop i v) = CHR ''.'' \<and> tl (drop i v) \<noteq> []
         \<and> list_all is_digit (tl (drop i v)))"
    unfolding is_number_text_def list_ex_iff Let_def by blast
  from i(3) have "drop i v = [] \<or> (\<exists>fd. drop i v = CHR ''.'' # fd \<and> fd \<noteq> []
      \<and> list_all is_digit fd)"
    by (cases "drop i v") auto
  moreover have "v = take i v @ drop i v" by simp
  ultimately show ?R using i(1,2) by blast
next
  assume ?R
  then obtain ip fp where v: "v = ip @ fp" "ip \<noteq> []" "list_all is_digit ip"
      "fp = [] \<or> (\<exists>fd. fp = CHR ''.'' # fd \<and> fd \<noteq> [] \<and> list_all is_digit fd)"
    by blast
  have "length ip \<in> set [0..<Suc (length v)]" using v(1) by simp
  moreover have "take (length ip) v = ip" "drop (length ip) v = fp" using v(1) by simp_all
  moreover have "fp = [] \<or> (hd fp = CHR ''.'' \<and> tl fp \<noteq> [] \<and> list_all is_digit (tl fp))"
    using v(4) by auto
  ultimately show ?L
    unfolding is_number_text_def list_ex_iff Let_def using v(2,3) by metis
qed

lemma matches_code_pattern_iff:
  "matches_code_pattern s \<longleftrightarrow>
     (\<exists>v ws u. s = v @ ws @ [u] \<and> is_number_text v \<and> list_all is_space ws
        \<and> u \<in> set ''smhd'')"
  (is "?L \<longleftrightarrow> ?R")
proof
  assume ?L
  then obtain i where i: "s \<noteq> []" "last s \<in> set ''smhd''"
      "is_number_text (take i (butlast s))" "list_all is_space (drop i (butlast s))"
    unfolding matches_code_pattern_def list_ex_iff by blast
  have "s = butlast s @ [last s]" using i(1) by simp
  moreover have "butlast s = take i (butlast s) @ drop i (butlast s)" by simp
  ultimately have "s = take i (butlast s) @ drop i (butlast s) @ [last s]"
    by (metis append_assoc)
  with i show ?R by blast
next
  assume ?R
  then obtain v ws u where s: "s = v @ ws @ [u]" "is_number_text v" "list_all is_space ws"
      "u \<in> set ''smhd''"
    by blast
  have b: "butlast s = v @ ws" and l: "last s = u" and n: "s \<noteq> []"
    using s(1) by (simp_all add: butlast_append)
  have "length v \<in> set [0..<Suc (length (butlast s))]" using b by simp
  moreover have "take (length v) (butlast s) = v" "drop (length v) (butlast s) = ws"
    using b by simp_all
  ultimately show ?L
    unfolding matches_code_pattern_def list_ex_iff using s(2,3,4) l n by metis
qed

lemma matches_spec_pattern_iff:
  "matches_spec_pattern s \<longleftrightarrow> (\<exists>v u. s = v @ [u] \<and> is_number_text v \<and> u \<in> set ''smhd'')"
  (is "?L \<longleftrightarrow> ?R")
proof
  assume ?L
  then have "s = butlast s @ [last s]" "is_number_text (butlast s)" "last s \<in> set ''smhd''"
    unfolding matches_spec_pattern_def by simp_all
  then show ?R by blast
next
  assume ?R
  then obtain v u where "s = v @ [u]" "is_number_text v" "u \<in> set ''smhd''" by blast
  then show ?L unfolding matches_spec_pattern_def by simp
qed


lemma match_threshold_sound:
  assumes "match_threshold s = Some (v, u)"
  shows "is_number_text v \<and> u \<in> set ''smhd''
         \<and> (\<exists>ws. s = v @ ws @ [u] \<and> list_all is_space ws)"
proof -
  define ip where "ip = takeWhile is_digit s"
  define r1 where "r1 = dropWhile is_digit s"
  define fp where "fp = (case r1 of [] \<Rightarrow> [] | c # t \<Rightarrow>
      if c = CHR ''.'' \<and> takeWhile is_digit t \<noteq> [] then c # takeWhile is_digit t else [])"
  define r2 where "r2 = drop (length fp) r1"
  define r3 where "r3 = dropWhile is_space r2"
  have m: "match_threshold s = (if ip = [] then None else
      (case r3 of [u] \<Rightarrow> if u \<in> set ''smhd'' then Some (ip @ fp, u) else None | _ \<Rightarrow> None))"
    unfolding match_threshold_def ip_def r1_def fp_def r2_def r3_def Let_def by (rule refl)
  from assms m have ip: "ip \<noteq> []" by (auto split: if_splits)
  with assms m have r3: "r3 = [u]" and u: "u \<in> set ''smhd''" and v: "v = ip @ fp"
    by (auto split: if_splits list.splits)
  have s: "s = ip @ r1" by (simp add: ip_def r1_def)
  have ipd: "list_all is_digit ip"
    unfolding ip_def by (simp add: list_all_iff) (meson set_takeWhileD)
  have fpd: "fp = [] \<or> (\<exists>fd. fp = CHR ''.'' # fd \<and> fd \<noteq> [] \<and> list_all is_digit fd)"
    and r1: "r1 = fp @ r2"
  proof -
    show "fp = [] \<or> (\<exists>fd. fp = CHR ''.'' # fd \<and> fd \<noteq> [] \<and> list_all is_digit fd)"
      unfolding fp_def
      by (auto split: list.splits simp: list_all_iff dest: set_takeWhileD)
    show "r1 = fp @ r2"
      unfolding r2_def fp_def
      by (auto split: list.splits simp: dropWhile_eq_drop [symmetric])
  qed
  have r2: "r2 = takeWhile is_space r2 @ [u]"
    using r3 unfolding r3_def by (metis takeWhile_dropWhile_id)
  have wsd: "list_all is_space (takeWhile is_space r2)"
    by (simp add: list_all_iff) (meson set_takeWhileD)
  have "is_number_text v"
    unfolding is_number_text_iff using v ip ipd fpd by blast
  moreover have "s = v @ takeWhile is_space r2 @ [u]"
    using s r1 r2 v by simp
  ultimately show ?thesis using u wsd by blast
qed



lemma spec_pattern_is_code_pattern:
  assumes "matches_spec_pattern s"
  shows "matches_code_pattern s"
proof -
  from assms obtain v u where "s = v @ [u]" "is_number_text v" "u \<in> set ''smhd''"
    unfolding matches_spec_pattern_iff by blast
  then have "s = v @ [] @ [u] \<and> is_number_text v \<and> list_all is_space [] \<and> u \<in> set ''smhd''"
    by simp
  then show ?thesis
    unfolding matches_code_pattern_iff by blast
qed

text \<open>The examples of the specification.\<close>

lemma parse_24h: "parse_threshold (PStr ''24h'') = Inr (Finite 24)"
  by (simp add: parse_threshold_def py_strip_def py_lower_def lower_char_def match_threshold_def
      is_space_def is_digit_def float_of_decimal_def int_of_digits_def digit_val_def
      float_le_zero_def float_eval)

lemma parse_15m: "parse_threshold (PStr ''15m'') = Inr (Finite (1 / 4))"
  by (simp add: parse_threshold_def py_strip_def py_lower_def lower_char_def match_threshold_def
      is_space_def is_digit_def float_of_decimal_def int_of_digits_def digit_val_def
      float_le_zero_def float_div_const_def float_eval)

lemma parse_2d: "parse_threshold (PStr ''2d'') = Inr (Finite 48)"
  by (simp add: parse_threshold_def py_strip_def py_lower_def lower_char_def match_threshold_def
      is_space_def is_digit_def float_of_decimal_def int_of_digits_def digit_val_def
      float_le_zero_def float_mul_const_def float_eval)

lemma parse_90s: "parse_threshold (PStr ''90s'') = Inr (binary64 (25 / 1000))"
proof -
  have v: "float_of_decimal ''90'' = Finite 90"
    by (simp add: float_of_decimal_def int_of_digits_def digit_val_def float_eval)
  have m: "match_threshold (py_lower (py_strip ''90s'')) = Some (''90'', CHR ''s'')"
    by (simp add: py_strip_def py_lower_def lower_char_def match_threshold_def is_space_def
        is_digit_def)
  show ?thesis
    by (simp add: parse_threshold_def m v float_le_zero_def float_div_const_def)
qed

lemma parse_3: "parse_threshold (PInt 3) = Inr (Finite 3)"
  by (simp add: parse_threshold_def float_of_int_def float_eval)

lemma parse_threshold_str:
  "parse_threshold (PStr t) =
     (case match_threshold (py_lower (py_strip t)) of
        None \<Rightarrow> Inl (ValueError
          (''threshold must look like '' @ [CHR 0x22] @ ''24h'' @ [CHR 0x22] @ '', ''
           @ [CHR 0x22] @ ''15m'' @ [CHR 0x22] @ '', '' @ [CHR 0x22] @ ''2d'' @ [CHR 0x22]
           @ '', or a numeric hour value''))
      | Some (v, u) \<Rightarrow>
          if float_le_zero (float_of_decimal v) then Inl (ValueError ''threshold must be > 0'')
          else if u = CHR ''s'' then Inr (float_div_const (float_of_decimal v) 3600)
          else if u = CHR ''m'' then Inr (float_div_const (float_of_decimal v) 60)
          else if u = CHR ''h'' then Inr (float_of_decimal v)
          else if u = CHR ''d'' then Inr (float_mul_const (float_of_decimal v) 24)
          else Inl (ValueError (''Unsupported unit: '' @ [u])))"
  by (simp add: parse_threshold_def Let_def split: option.splits)

text \<open>
  C6. Every accepted input of \<open>parse_threshold\<close> gives hours as a float by the unit
  conversions: for a string, the number before the unit letter divided by 3600 (\<open>s\<close>) or
  by 60 (\<open>m\<close>), unchanged (\<open>h\<close>), or multiplied by 24 (\<open>d\<close>); for a number, the number
  itself as a float (exactly, for an integer below \<open>2^53\<close>). In particular \<open>"24h"\<close>
  gives 24.0, \<open>"15m"\<close> gives 0.25, \<open>"2d"\<close> gives 48.0, \<open>"90s"\<close> gives the float 0.025,
  and the number 3 gives 3.0.
\<close>

theorem parse_threshold_conversion:
  "(parse_threshold (PStr t) = Inr h \<longrightarrow>
      (\<exists>v ws u. py_lower (py_strip t) = v @ ws @ [u] \<and> is_number_text v
         \<and> list_all is_space ws \<and> u \<in> set ''smhd''
         \<and> h = (if u = CHR ''s'' then float_div_const (float_of_decimal v) 3600
                else if u = CHR ''m'' then float_div_const (float_of_decimal v) 60
                else if u = CHR ''h'' then float_of_decimal v
                else float_mul_const (float_of_decimal v) 24)))
   \<and> (parse_threshold (PFloat x) = Inr h \<longrightarrow> h = x)
   \<and> (parse_threshold (PInt n) = Inr h \<longrightarrow> h = binary64 (of_int n))
   \<and> (0 < n \<and> n < 2 ^ 53 \<longrightarrow> parse_threshold (PInt n) = Inr (Finite (of_int n)))
   \<and> parse_threshold (PStr ''24h'') = Inr (Finite 24)
   \<and> parse_threshold (PStr ''15m'') = Inr (Finite (1 / 4))
   \<and> parse_threshold (PStr ''2d'') = Inr (Finite 48)
   \<and> parse_threshold (PStr ''90s'') = Inr (binary64 (25 / 1000))
   \<and> binary64 (25 / 1000) = Finite (3602879701896397 / 144115188075855872)
   \<and> parse_threshold (PInt 3) = Inr (Finite 3)"
proof -
  have str: "parse_threshold (PStr t) = Inr h \<longrightarrow>
      (\<exists>v ws u. py_lower (py_strip t) = v @ ws @ [u] \<and> is_number_text v
         \<and> list_all is_space ws \<and> u \<in> set ''smhd''
         \<and> h = (if u = CHR ''s'' then float_div_const (float_of_decimal v) 3600
                else if u = CHR ''m'' then float_div_const (float_of_decimal v) 60
                else if u = CHR ''h'' then float_of_decimal v
                else float_mul_const (float_of_decimal v) 24))"
  proof
    assume a: "parse_threshold (PStr t) = Inr h"
    then obtain v u where m: "match_threshold (py_lower (py_strip t)) = Some (v, u)"
      by (cases "match_threshold (py_lower (py_strip t))") (auto simp: parse_threshold_str)
    from match_threshold_sound [OF m] obtain ws where
      s: "py_lower (py_strip t) = v @ ws @ [u]" "is_number_text v" "list_all is_space ws"
        "u \<in> set ''smhd''"
      by blast
    have "h = (if u = CHR ''s'' then float_div_const (float_of_decimal v) 3600
                else if u = CHR ''m'' then float_div_const (float_of_decimal v) 60
                else if u = CHR ''h'' then float_of_decimal v
                else float_mul_const (float_of_decimal v) 24)"
      using a s(4) by (auto simp: parse_threshold_str m split: if_splits)
    with s show "\<exists>v ws u. py_lower (py_strip t) = v @ ws @ [u] \<and> is_number_text v
         \<and> list_all is_space ws \<and> u \<in> set ''smhd''
         \<and> h = (if u = CHR ''s'' then float_div_const (float_of_decimal v) 3600
                else if u = CHR ''m'' then float_div_const (float_of_decimal v) 60
                else if u = CHR ''h'' then float_of_decimal v
                else float_mul_const (float_of_decimal v) 24)"
      by blast
  qed
  have flt: "parse_threshold (PFloat x) = Inr h \<longrightarrow> h = x"
    by (auto simp: parse_threshold_def split: if_splits)
  have int1: "parse_threshold (PInt n) = Inr h \<longrightarrow> h = binary64 (of_int n)"
    by (auto simp: parse_threshold_def float_of_int_def split: if_splits pyfloat.splits)
  have int2: "0 < n \<and> n < 2 ^ 53 \<longrightarrow> parse_threshold (PInt n) = Inr (Finite (of_int n))"
    by (auto simp: parse_threshold_def float_of_int_def binary64_small_int)
  from str flt int1 int2 parse_24h parse_15m parse_2d parse_90s binary64_0025 parse_3
  show ?thesis by blast
qed

theorem parse_threshold_conversion_witness:
  "parse_threshold (PStr ''15m'') = Inr (Finite (1 / 4))
   \<and> (\<exists>v ws u. py_lower (py_strip ''15m'') = v @ ws @ [u] \<and> is_number_text v
         \<and> list_all is_space ws \<and> u \<in> set ''smhd''
         \<and> Finite (1 / 4) = (if u = CHR ''s'' then float_div_const (float_of_decimal v) 3600
                else if u = CHR ''m'' then float_div_const (float_of_decimal v) 60
                else if u = CHR ''h'' then float_of_decimal v
                else float_mul_const (float_of_decimal v) 24))
   \<and> parse_threshold (PFloat (Finite (1 / 4))) = Inr (Finite (1 / 4))
   \<and> parse_threshold (PInt 7) = Inr (Finite 7)
   \<and> parse_threshold (PInt 3) = Inr (Finite 3) \<and> Finite 3 = binary64 (of_int 3)"
proof -
  have f: "parse_threshold (PFloat (Finite (1 / 4))) = Inr (Finite (1 / 4))"
    by (simp add: parse_threshold_def float_le_zero_def)
  show ?thesis
    using parse_threshold_conversion [of "''15m''" "Finite (1 / 4)" "Finite (1 / 4)" 7]
      parse_threshold_conversion [of "''15m''" "Finite 3" "Finite 3" 3] parse_15m parse_3 f
    by simp
qed




text \<open>
  C10. \<open>parse_threshold\<close> takes a Python boolean as a number, since \<open>bool\<close> is a
  subclass of \<open>int\<close>: \<open>True\<close> gives 1.0 hours, not the unsupported-type error, and
  \<open>False\<close> fails with the error of a non-positive threshold.
\<close>

theorem parse_threshold_bool:
  "parse_threshold (PBool True) = Inr (Finite 1)
   \<and> parse_threshold (PBool False) = Inl (ValueError ''threshold must be > 0'')
   \<and> parse_threshold (PBool True) \<noteq> Inl (ValueError (''Unsupported threshold type: '' @ type_repr (PBool True)))"
  by (simp add: parse_threshold_def float_of_int_def float_eval)

subsection \<open>Normalising the status payload\<close>

lemma get_agent_status_dict:
  assumes "normalize_address addr = Inr norm_addr"
    and "http_get_json srv (status_url api_base_url norm_addr) max_retries backoff_secs tr
           = (Inr payload, tr')"
  shows "get_agent_status srv addr api_base_url max_retries backoff_secs tr
           = (status_of_payload norm_addr payload, tr')"
  using assms by (simp add: get_agent_status_def)

lemma http_get_json_first_ok:
  assumes "srv tr url = Returned payload" and "0 \<le> max_retries"
  shows "http_get_json srv url max_retries backoff_secs tr = (Inr payload, tr @ [Request url])"
proof -
  have "[0..<nat (max_retries + 1)] = 0 # [1..<nat (max_retries + 1)]"
    using assms(2) by (simp add: upt_rec)
  then show ?thesis
    using assms(1) by (simp add: http_get_json_def handle_outcome_def)
qed

text \<open>
  C9. In \<open>get_agent_status\<close>, the value found under \<open>alive\<close>, or under \<open>isAlive\<close> when
  \<open>alive\<close> is missing or null, is turned into a boolean by its truthiness whatever its
  type: a non-empty string (\<open>"false"\<close> too) and a non-zero number give \<open>True\<close>, the empty
  string and 0 give \<open>False\<close>; the \<open>alive\<close> field is \<open>None\<close> only when the value found is
  missing or null.
\<close>

theorem alive_coerced_by_truthiness:
  assumes "normalize_address addr = Inr norm_addr"
    and "http_get_json srv (status_url api_base_url norm_addr) max_retries backoff_secs tr
           = (Inr (PDict kv), tr')"
    and "found = (if dict_get kv ''alive'' \<noteq> PNone then dict_get kv ''alive''
                  else dict_get kv ''isAlive'')"
  shows "\<exists>st. get_agent_status srv addr api_base_url max_retries backoff_secs tr = (Inr st, tr')
           \<and> (alive st = None \<longleftrightarrow> found = PNone)
           \<and> (found \<noteq> PNone \<longrightarrow> alive st = Some (py_bool found))
           \<and> (\<forall>s. found = PStr s \<longrightarrow> alive st = Some (s \<noteq> []))
           \<and> (\<forall>n. found = PInt n \<longrightarrow> alive st = Some (n \<noteq> 0))
           \<and> (\<forall>q. found = PFloat (Finite q) \<longrightarrow> alive st = Some (q \<noteq> 0))
           \<and> (found = PStr ''false'' \<longrightarrow> alive st = Some True)
           \<and> (found = PStr [] \<or> found = PInt 0 \<longrightarrow> alive st = Some False)"
  using get_agent_status_dict [OF assms(1) assms(2)] assms(3)
  by (auto simp: status_of_payload_def Let_def py_bool_def)

theorem alive_coerced_by_truthiness_witness:
  "\<exists>st. get_agent_status (\<lambda>tr url. Returned (PDict [(''alive'', PStr ''false'')]))
           ''0xAB'' ''https://pulse.example/'' 3 (1 / 2) []
         = (Inr st, [Request ''https://pulse.example/api/v2/agent/0xab/alive''])
       \<and> alive st = Some True"
proof -
  let ?srv = "\<lambda>(tr :: trace) (url :: string). Returned (PDict [(''alive'', PStr ''false'')])"
  have n: "normalize_address ''0xAB'' = Inr ''0xab''"
    by (simp add: normalize_address_def py_strip_def is_space_def py_lower_def lower_char_def
        char_of_eq_iff)
  have u: "status_url ''https://pulse.example/'' ''0xab'' = ''https://pulse.example/api/v2/agent/0xab/alive''"
    by (simp add: status_url_def rstrip_slash_def)
  have h: "http_get_json ?srv (status_url ''https://pulse.example/'' ''0xab'') 3 (1 / 2) []
             = (Inr (PDict [(''alive'', PStr ''false'')]),
                [Request ''https://pulse.example/api/v2/agent/0xab/alive''])"
    by (simp add: http_get_json_first_ok u)
  show ?thesis
    using alive_coerced_by_truthiness [OF n h, of "PStr ''false''"]
    by (auto simp: dict_get_def)
qed



subsection \<open>Retry policy of the fetch\<close>










subsection \<open>Batch filtering\<close>

lemma filter_loop_append:
  "filter_loop check d (xs @ ys) acc tr =
     (case filter_loop check d xs acc tr of
        (Inr acc', tr') \<Rightarrow> filter_loop check d ys acc' tr'
      | (Inl e, tr') \<Rightarrow> (Inl e, tr'))"
  by (induction xs arbitrary: acc tr) (auto split: prod.splits sum.splits)

lemma filter_loop_acc:
  "filter_loop check d xs acc tr =
     (case filter_loop check d xs [] tr of
        (Inr ys, tr') \<Rightarrow> (Inr (acc @ ys), tr')
      | (Inl e, tr') \<Rightarrow> (Inl e, tr'))"
proof (induction xs arbitrary: acc tr)
  case Nil
  show ?case by simp
next
  case (Cons x xs)
  show ?case
  proof (cases "check x tr")
    case (Pair r tr1)
    show ?thesis
    proof (cases r)
      case (Inl e)
      then show ?thesis
        using Pair Cons.IH [of acc tr1] by (cases d) (auto split: prod.splits sum.splits)
    next
      case (Inr recent)
      then show ?thesis
        using Pair Cons.IH [of "acc @ [x]" tr1] Cons.IH [of "[x]" tr1] Cons.IH [of acc tr1]
        by (auto split: prod.splits sum.splits)
    qed
  qed
qed

lemma filter_loop_lenient_total:
  "\<exists>ys tr'. filter_loop check True xs acc tr = (Inr ys, tr')"
  by (induction xs arbitrary: acc tr) (auto split: prod.splits sum.splits)



lemma filter_loop_strict_ok:
  assumes "filter_loop check False xs acc tr = (Inr ys, tr')"
  shows "filter_loop check True xs acc tr = (Inr ys, tr')"
  using assms
  by (induction xs arbitrary: acc tr) (auto split: prod.splits sum.splits if_splits)

lemma filter_loop_strict_error:
  assumes "filter_loop check False xs acc tr = (Inl e, tr')"
  shows "\<exists>pre a post acc1 tr1. xs = pre @ a # post
           \<and> filter_loop check False pre acc tr = (Inr acc1, tr1)
           \<and> check a tr1 = (Inl e, tr')"
  using assms
proof (induction xs arbitrary: acc tr)
  case Nil
  then show ?case by simp
next
  case (Cons x xs)
  obtain r tr1 where c: "check x tr = (r, tr1)" by (cases "check x tr")
  show ?case
  proof (cases r)
    case (Inl e')
    with Cons.prems c have "e' = e" "tr1 = tr'" by simp_all
    with c Inl have "x # xs = [] @ x # xs \<and> filter_loop check False [] acc tr = (Inr acc, tr)
        \<and> check x tr = (Inl e, tr')" by simp
    then show ?thesis by blast
  next
    case (Inr recent)
    let ?acc = "if recent then acc @ [x] else acc"
    from Cons.prems c Inr have "filter_loop check False xs ?acc tr1 = (Inl e, tr')" by simp
    from Cons.IH [OF this] obtain pre a post acc1 tr2 where
      p: "xs = pre @ a # post" "filter_loop check False pre ?acc tr1 = (Inr acc1, tr2)"
         "check a tr2 = (Inl e, tr')" by blast
    have "x # xs = (x # pre) @ a # post" using p(1) by simp
    moreover have "filter_loop check False (x # pre) acc tr = (Inr acc1, tr2)"
      using p(2) c Inr by simp
    ultimately show ?thesis using p(3) by blast
  qed
qed






lemma normalize_0xAA: "normalize_address ''0xAA'' = Inr ''0xaa''"
  by (simp add: normalize_address_def py_strip_def is_space_def py_lower_def lower_char_def char_of_def bit_0
      char_of_def bit_0)

lemma normalize_0xBB: "normalize_address ''0xBB'' = Inr ''0xbb''"
  by (simp add: normalize_address_def py_strip_def is_space_def py_lower_def lower_char_def char_of_def bit_0
      char_of_def bit_0)

lemma threshold_seconds_24: "threshold_seconds_of (IntNum 24) = Inr 86400"
  by (simp add: threshold_seconds_of_def float_of_int_def float_mul_const_def int_of_float_def
      float_eval)


text \<open>
  C3. In a batch, let an agent's check raise (its address cannot be extracted, or its
  status fetch fails) after the agents before it were checked without an error. With
  \<open>drop_on_error = False\<close> the batch ends there with that error: no list is returned, and
  the trace is the one the failing check left, so no later agent is fetched. With
  \<open>drop_on_error = True\<close> the batch goes on from there: the result is the list kept so
  far followed by what the remaining agents contribute, without the failing agent.
  Conversely an error of a batch with \<open>drop_on_error = False\<close> is always that of the
  first agent whose check raises, and a batch with \<open>drop_on_error = True\<close> always returns
  a list; so does the call that leaves every keyword at its default, \<open>drop_on_error\<close>
  among them.
\<close>

theorem drop_on_error_policy:
  assumes "\<not> number_le_zero threshold_hours"
    and "threshold_seconds_of threshold_hours = Inr threshold_seconds"
  shows
    "(filter_alive_agents srv now_ts pre threshold_hours api_base_url max_retries backoff_secs
          address_getter False tr = (Inr kept, tr1)
        \<and> check_agent srv now_ts threshold_seconds api_base_url max_retries backoff_secs
            address_getter agent tr1 = (Inl e, tr2)
      \<longrightarrow> filter_alive_agents srv now_ts (pre @ agent # post) threshold_hours api_base_url
              max_retries backoff_secs address_getter False tr = (Inl e, tr2)
          \<and> (\<exists>ys tr3.
                filter_alive_agents srv now_ts post threshold_hours api_base_url max_retries
                    backoff_secs address_getter True tr2 = (Inr ys, tr3)
                \<and> filter_alive_agents srv now_ts (pre @ agent # post) threshold_hours
                    api_base_url max_retries backoff_secs address_getter True tr
                  = (Inr (kept @ ys), tr3)))
     \<and> (check_agent srv now_ts threshold_seconds api_base_url max_retries backoff_secs
            address_getter agent tr1 = (Inl e, tr2)
        \<longleftrightarrow> ((case address_getter of Some g \<Rightarrow> g agent | None \<Rightarrow> get_agent_address agent) = Inl e
              \<and> tr2 = tr1)
            \<or> (\<exists>addr. (case address_getter of Some g \<Rightarrow> g agent | None \<Rightarrow> get_agent_address agent)
                         = Inr addr
                  \<and> get_agent_status srv addr api_base_url max_retries backoff_secs tr1
                      = (Inl e, tr2)))
     \<and> (filter_alive_agents srv now_ts agents threshold_hours api_base_url max_retries
            backoff_secs address_getter False tr = (Inl e, tr')
        \<longrightarrow> (\<exists>pre agent post kept tr1. agents = pre @ agent # post
              \<and> filter_alive_agents srv now_ts pre threshold_hours api_base_url max_retries
                    backoff_secs address_getter False tr = (Inr kept, tr1)
              \<and> check_agent srv now_ts threshold_seconds api_base_url max_retries backoff_secs
                    address_getter agent tr1 = (Inl e, tr')))
     \<and> (\<exists>ys tr'. filter_alive_agents srv now_ts agents threshold_hours api_base_url max_retries
            backoff_secs address_getter True tr = (Inr ys, tr'))
     \<and> (\<exists>ys tr'. filter_alive_agents_defaults srv now_ts agents tr = (Inr ys, tr'))"
proof -
  let ?check = "check_agent srv now_ts threshold_seconds api_base_url max_retries backoff_secs
                  address_getter"
  have f: "filter_alive_agents srv now_ts xs threshold_hours api_base_url max_retries
             backoff_secs address_getter d t = filter_loop ?check d xs [] t" for xs d t
    using assms by (simp add: filter_alive_agents_def)
  have one: "filter_loop ?check False (pre @ agent # post) [] tr = (Inl e, tr2)
          \<and> (\<exists>ys tr3. filter_loop ?check True post [] tr2 = (Inr ys, tr3)
                \<and> filter_loop ?check True (pre @ agent # post) [] tr = (Inr (kept @ ys), tr3))"
    if p: "filter_loop ?check False pre [] tr = (Inr kept, tr1)"
      and c: "?check agent tr1 = (Inl e, tr2)"
  proof
    show "filter_loop ?check False (pre @ agent # post) [] tr = (Inl e, tr2)"
      by (simp add: filter_loop_append [of ?check False pre] p c)
    obtain ys tr3 where post: "filter_loop ?check True post [] tr2 = (Inr ys, tr3)"
      using filter_loop_lenient_total by blast
    have "filter_loop ?check True post kept tr2 = (Inr (kept @ ys), tr3)"
      using filter_loop_acc [of ?check True post kept tr2] post by simp
    then have "filter_loop ?check True (pre @ agent # post) [] tr = (Inr (kept @ ys), tr3)"
      by (simp add: filter_loop_append [of ?check True pre] filter_loop_strict_ok [OF p] c)
    with post show "\<exists>ys tr3. filter_loop ?check True post [] tr2 = (Inr ys, tr3)
                \<and> filter_loop ?check True (pre @ agent # post) [] tr = (Inr (kept @ ys), tr3)"
      by blast
  qed
  have two: "?check agent tr1 = (Inl e, tr2)
        \<longleftrightarrow> ((case address_getter of Some g \<Rightarrow> g agent | None \<Rightarrow> get_agent_address agent) = Inl e
              \<and> tr2 = tr1)
            \<or> (\<exists>addr. (case address_getter of Some g \<Rightarrow> g agent | None \<Rightarrow> get_agent_address agent)
                         = Inr addr
                  \<and> get_agent_status srv addr api_base_url max_retries backoff_secs tr1
                      = (Inl e, tr2))"
    unfolding check_agent_def
    by (auto split: sum.splits prod.splits)
  have three: "\<exists>pre agent post kept tr1. agents = pre @ agent # post
              \<and> filter_loop ?check False pre [] tr = (Inr kept, tr1)
              \<and> ?check agent tr1 = (Inl e, tr')"
    if "filter_loop ?check False agents [] tr = (Inl e, tr')"
    using filter_loop_strict_error [OF that] .
  have four: "\<exists>ys tr'. filter_loop ?check True agents [] tr = (Inr ys, tr')"
    by (rule filter_loop_lenient_total)
  have five: "\<exists>ys tr'. filter_alive_agents_defaults srv now_ts agents tr = (Inr ys, tr')"
    unfolding filter_alive_agents_defaults_def filter_alive_agents_def
    by (simp add: number_le_zero_def threshold_seconds_24 filter_loop_lenient_total)
  from one two three four five show ?thesis
    unfolding f by blast
qed

theorem drop_on_error_policy_witness:
  "filter_alive_agents (\<lambda>tr url. Returned (PDict [(''alive'', PBool True)])) 1000
      [AgentStr ''0xAA'', AgentStr [], AgentStr ''0xBB''] (IntNum 24)
      ''https://pulse.example'' 3 (1 / 2) None False []
     = (Inl (ValueError ''Empty address''),
        [Request ''https://pulse.example/api/v2/agent/0xaa/alive''])
   \<and> filter_alive_agents (\<lambda>tr url. Returned (PDict [(''alive'', PBool True)])) 1000
      [AgentStr ''0xAA'', AgentStr [], AgentStr ''0xBB''] (IntNum 24)
      ''https://pulse.example'' 3 (1 / 2) None True []
     = (Inr [AgentStr ''0xAA'', AgentStr ''0xBB''],
        [Request ''https://pulse.example/api/v2/agent/0xaa/alive'',
         Request ''https://pulse.example/api/v2/agent/0xbb/alive''])"
proof -
  let ?srv = "\<lambda>(tr :: trace) (url :: string). Returned (PDict [(''alive'', PBool True)])"
  let ?u1 = "''https://pulse.example/api/v2/agent/0xaa/alive''"
  let ?u2 = "''https://pulse.example/api/v2/agent/0xbb/alive''"
  let ?check = "check_agent ?srv 1000 86400 ''https://pulse.example'' 3 (1 / 2) None"
  let ?run = "\<lambda>xs d t. filter_alive_agents ?srv 1000 xs (IntNum 24) ''https://pulse.example'' 3
                (1 / 2) None d t"
  have pos: "\<not> number_le_zero (IntNum 24)"
    by (simp add: number_le_zero_def)
  have c1: "?check (AgentStr ''0xAA'') t = (Inr True, t @ [Request ?u1])" for t
    by (simp add: check_agent_def get_agent_address_def normalize_0xAA get_agent_status_def
        normalize_address_def py_strip_def is_space_def py_lower_def lower_char_def char_of_def bit_0
        status_url_def rstrip_slash_def http_get_json_first_ok status_of_payload_def
        dict_get_def normalize_timestamp_def py_bool_def is_recent_def)
  have c3: "?check (AgentStr ''0xBB'') t = (Inr True, t @ [Request ?u2])" for t
    by (simp add: check_agent_def get_agent_address_def normalize_0xBB get_agent_status_def
        normalize_address_def py_strip_def is_space_def py_lower_def lower_char_def char_of_def bit_0
        status_url_def rstrip_slash_def http_get_json_first_ok status_of_payload_def
        dict_get_def normalize_timestamp_def py_bool_def is_recent_def)
  have c2: "?check (AgentStr []) t = (Inl (ValueError ''Empty address''), t)" for t
    by (simp add: check_agent_def get_agent_address_def normalize_address_def py_strip_def)
  have pre: "?run [AgentStr ''0xAA''] False [] = (Inr [AgentStr ''0xAA''], [Request ?u1])"
    using pos by (simp add: filter_alive_agents_def threshold_seconds_24 c1)
  have post: "?run [AgentStr ''0xBB''] True [Request ?u1]
                = (Inr [AgentStr ''0xBB''], [Request ?u1, Request ?u2])"
    using pos by (simp add: filter_alive_agents_def threshold_seconds_24 c3)
  from drop_on_error_policy [OF pos threshold_seconds_24, of ?srv 1000 "[AgentStr ''0xAA'']"
      "''https://pulse.example''" 3 "1 / 2" None "[]" "[AgentStr ''0xAA'']" "[Request ?u1]"
      "AgentStr []" "ValueError ''Empty address''" "[Request ?u1]" "[AgentStr ''0xBB'']"]
    pre c2 [of "[Request ?u1]"]
  have strict: "?run ([AgentStr ''0xAA''] @ AgentStr [] # [AgentStr ''0xBB'']) False []
                  = (Inl (ValueError ''Empty address''), [Request ?u1])"
    and lenient: "\<exists>ys tr3. ?run [AgentStr ''0xBB''] True [Request ?u1] = (Inr ys, tr3)
                  \<and> ?run ([AgentStr ''0xAA''] @ AgentStr [] # [AgentStr ''0xBB'']) True []
                      = (Inr ([AgentStr ''0xAA''] @ ys), tr3)"
    by blast+
  from lenient post have "?run ([AgentStr ''0xAA''] @ AgentStr [] # [AgentStr ''0xBB'']) True []
      = (Inr ([AgentStr ''0xAA''] @ [AgentStr ''0xBB'']), [Request ?u1, Request ?u2])"
    by auto
  with strict show ?thesis by simp
qed

end
